theory Spec2Isabelle
  imports Main "HOL-Library.Finite_Map"
begin

section \<open>JavaScript values\<close>

text \<open>
  The client is JavaScript, so its inputs and outputs are dynamically typed values.
  Numbers are modelled at their integer values (identifiers, page indices and limits
  are integers; fractions, NaN and the exponent notation of very large numbers are
  outside the model). An object is a finite map from property names to values: the
  enumeration order of the properties is not modelled. Only own properties are
  modelled; none of the property names the client reads (\<open>sort\<close>, \<open>reverse\<close>,
  \<open>limit\<close>, \<open>page\<close>, \<open>filter\<close>, \<open>filter_or\<close>, \<open>idempotency_key\<close>, \<open>status\<close>,
  \<open>message\<close>, \<open>code\<close>, \<open>access_token\<close>, \<open>format\<close>, \<open>charset\<close>) is inherited from
  \<open>Object.prototype\<close>.
\<close>

datatype jsval =
    JUndefined
  | JNull
  | JBool bool
  | JNum int
  | JStr string
  | JArr "jsval list"
  | JObj "(string, jsval) fmap"

type_synonym obj = "(string, jsval) fmap"

text \<open>ToBoolean: what \<open>if (v)\<close> tests.\<close>

fun truthy :: "jsval \<Rightarrow> bool" where
  "truthy JUndefined = False"
| "truthy JNull = False"
| "truthy (JBool b) = b"
| "truthy (JNum n) = (n \<noteq> 0)"
| "truthy (JStr s) = (s \<noteq> [])"
| "truthy (JArr xs) = True"
| "truthy (JObj m) = True"

text \<open>Reading a property of an object: \<open>undefined\<close> when the object has no such property.\<close>

definition get_prop :: "obj \<Rightarrow> string \<Rightarrow> jsval" where
  "get_prop m k = (case fmlookup m k of None \<Rightarrow> JUndefined | Some v \<Rightarrow> v)"

text \<open>
  An object literal \<open>{k1: v1, k2: v2}\<close> defines its properties from left to right, a
  later one replacing an earlier one of the same name (computed keys can repeat a
  name). A spread \<open>...data\<close> inside a literal copies the properties of \<open>data\<close> over
  what the literal holds so far.
\<close>

definition object_literal :: "(string \<times> jsval) list \<Rightarrow> obj" where
  "object_literal ps = fold (\<lambda>(k, v) m. fmupd k v m) ps fmempty"


text \<open>The statement \<open>if (cond) { o[k] = v }\<close>, as a function of the object \<open>o\<close>.\<close>

definition assign_if :: "bool \<Rightarrow> string \<Rightarrow> jsval \<Rightarrow> obj \<Rightarrow> obj" where
  "assign_if cond k v m = (if cond then fmupd k v m else m)"

text \<open>A parameter declared \<open>p = {}\<close>: the default replaces an omitted argument.\<close>

definition default_obj :: "obj option \<Rightarrow> obj" where
  "default_obj p = (case p of None \<Rightarrow> fmempty | Some m \<Rightarrow> m)"

subsection \<open>ToString, as template literals and \<open>Array.prototype.join\<close> use it\<close>

definition digit_char :: "nat \<Rightarrow> char" where
  "digit_char d = ''0123456789'' ! d"

function string_of_nat :: "nat \<Rightarrow> string" where
  "string_of_nat n =
     (if n < 10 then [digit_char n]
      else string_of_nat (n div 10) @ [digit_char (n mod 10)])"
  by pat_completeness auto
termination
  by (relation "measure id") auto

definition string_of_int :: "int \<Rightarrow> string" where
  "string_of_int i =
     (if i < 0 then CHR ''-'' # string_of_nat (nat (- i)) else string_of_nat (nat i))"

text \<open>
  The loop of \<open>Array.prototype.join\<close>: \<open>R\<close> is the string built so far, \<open>k\<close> the index
  of the next element, and the separator goes before every element but the first.
\<close>

fun join_loop :: "string \<Rightarrow> string \<Rightarrow> nat \<Rightarrow> string list \<Rightarrow> string" where
  "join_loop sep R k [] = R"
| "join_loop sep R k (e # es) =
     join_loop sep ((if k > 0 then R @ sep else R) @ e) (Suc k) es"

fun to_string :: "jsval \<Rightarrow> string" where
  "to_string JUndefined = ''undefined''"
| "to_string JNull = ''null''"
| "to_string (JBool b) = (if b then ''true'' else ''false'')"
| "to_string (JNum n) = string_of_int n"
| "to_string (JStr s) = s"
| "to_string (JArr xs) =
     join_loop '','' [] 0
       (map (\<lambda>x. if x = JUndefined \<or> x = JNull then [] else to_string x) xs)"
| "to_string (JObj m) = ''[object Object]''"

text \<open>\<open>xs.join(sep)\<close>: an \<open>undefined\<close> or \<open>null\<close> element contributes the empty string.\<close>

definition Array_join :: "jsval list \<Rightarrow> string \<Rightarrow> string" where
  "Array_join xs sep =
     join_loop sep [] 0
       (map (\<lambda>x. if x = JUndefined \<or> x = JNull then [] else to_string x) xs)"

text \<open>
  What the spec calls joining with commas: the strings in their order, one comma
  between neighbours. The source's \<open>join\<close> is compared with it.
\<close>

fun comma_separated :: "string list \<Rightarrow> string" where
  "comma_separated [] = []"
| "comma_separated [s] = s"
| "comma_separated (s # t # ts) = s @ '','' @ comma_separated (t # ts)"

section \<open>Errors, the transport and the client\<close>

text \<open>
  A thrown value (a rejected promise, for the asynchronous methods). \<open>TracelinkError\<close>
  is the class of the source: \<open>message\<close>, \<open>code\<close> and the attached \<open>response\<close>. \<open>Error\<close>
  and \<open>ReferenceError\<close> carry their message; the message of a \<open>TypeError\<close> is left out.
\<close>

record tracelink_error =
  name :: string
  message :: string
  code :: jsval
  response :: jsval

datatype js_error =
    Error string
  | ReferenceError string
  | TypeError
  | TracelinkError tracelink_error

text \<open>
  The constructor of \<open>Error\<close>, reached through \<open>super(message)\<close>: an \<open>undefined\<close>
  argument leaves the message empty, any other value is converted to a string.
\<close>

definition Error_message :: "jsval \<Rightarrow> string" where
  "Error_message v = (if v = JUndefined then [] else to_string v)"

definition new_TracelinkError :: "jsval \<Rightarrow> jsval \<Rightarrow> tracelink_error" where
  "new_TracelinkError msg c =
     \<lparr> name = ''TracelinkError'', message = Error_message msg, code = c,
       response = JUndefined \<rparr>"

text \<open>
  \<open>fetch(url, {method, headers, body})\<close>. The field \<open>req_body\<close> holds the value handed to
  \<open>JSON.stringify\<close>; the serialisation itself is the runtime's. The response offers
  \<open>json()\<close>, which fails or yields the parsed body, and \<open>headers.get(name)\<close>, which
  yields the header's value or \<open>null\<close> (here \<open>None\<close>). The parsed body is an object, the
  envelope the service answers with (\<open>TracelinkResponse\<close> in the type declarations); a
  body that parses to \<open>null\<close>, a number, a string or an array is outside the model.
\<close>

record http_request =
  req_url :: string
  req_method :: string
  req_headers :: obj
  req_body :: jsval

record http_response =
  json :: "js_error + obj"
  headers_get :: "string \<Rightarrow> string option"

type_synonym transport = "http_request \<Rightarrow> js_error + http_response"

text \<open>What a call does: the requests it sent, and the value it returns or throws.\<close>

type_synonym outcome = "http_request list \<times> (js_error + jsval)"

record client =
  access_token :: jsval
  format :: jsval
  charset :: jsval

definition BASE_URL :: string where
  "BASE_URL = ''https://tracelink.app/rest''"

definition TracelinkClient :: "obj option \<Rightarrow> js_error + client" where
  "TracelinkClient config =
     (if \<not> truthy (case config of None \<Rightarrow> JUndefined | Some cfg \<Rightarrow> get_prop cfg ''access_token'')
      then Inl (Error ''access_token is required'')
      else
        let cfg = default_obj config in
        Inr \<lparr> access_token = get_prop cfg ''access_token'',
              format = (if truthy (get_prop cfg ''format'') then get_prop cfg ''format''
                        else JStr ''json''),
              charset = (if truthy (get_prop cfg ''charset'') then get_prop cfg ''charset''
                         else JStr ''UTF-8'') \<rparr>)"

text \<open>
  \<open>TracelinkClient.request(endpoint, body = {}, options = {})\<close>, with the runtime's
  \<open>fetch\<close> as a parameter.
\<close>

definition request :: "client \<Rightarrow> transport \<Rightarrow> string \<Rightarrow> jsval option \<Rightarrow> obj option \<Rightarrow> outcome" where
  "request c fetch endpoint body_arg options_arg =
     (let body = (case body_arg of None \<Rightarrow> JObj fmempty | Some b \<Rightarrow> b);
          options = default_obj options_arg;
          url = BASE_URL @ endpoint;
          headers = object_literal
            [(''x-access-token'', access_token c),
             (''Content-Type'', JStr ''application/json''),
             (''Accept'', JStr (if format c = JStr ''xml'' then ''application/xml''
                                else ''application/json''))];
          headers = assign_if (charset c = JStr ''CP850'') ''X-Charset'' (JStr ''CP850'') headers;
          headers = assign_if (truthy (get_prop options ''idempotency_key'')) ''Idempotency-Key''
                      (get_prop options ''idempotency_key'') headers;
          req = \<lparr> req_url = url, req_method = ''POST'', req_headers = headers,
                  req_body = body \<rparr>
      in ([req],
          case fetch req of
            Inl e \<Rightarrow> Inl e
          | Inr resp \<Rightarrow>
              (case json resp of
                 Inl e \<Rightarrow> Inl e
               | Inr data \<Rightarrow>
                   let cached_key = headers_get resp ''X-ResultFromCache'';
                       data = (case cached_key of
                                 None \<Rightarrow> data
                               | Some key \<Rightarrow>
                                   if key \<noteq> []
                                   then fmupd ''_idempotency_key'' (JStr key)
                                          (fmupd ''_cached'' (JBool True) data)
                                   else data)
                   in if get_prop data ''status'' = JStr ''error''
                      then
                        let error = new_TracelinkError (get_prop data ''message'')
                                      (get_prop data ''code'');
                            error = error \<lparr> response := JObj data \<rparr>
                        in Inl (TracelinkError error)
                      else Inr (JObj data))))"

section \<open>The query-parameter normalizer\<close>

definition buildOrderParams :: "obj option \<Rightarrow> jsval" where
  "buildOrderParams options_arg =
     (let options = default_obj options_arg;
          order = fmempty;
          order = assign_if (truthy (get_prop options ''sort'')) ''sort''
                    (case get_prop options ''sort'' of
                       JArr xs \<Rightarrow> JStr (Array_join xs '','')  \<comment> \<open>\<open>Array.isArray\<close>\<close>
                     | v \<Rightarrow> v) order;
          order = assign_if (truthy (get_prop options ''reverse'')) ''reverse'' (JNum 1) order;
          order = assign_if (get_prop options ''limit'' \<noteq> JUndefined) ''limit''
                    (get_prop options ''limit'') order;
          order = assign_if (get_prop options ''page'' \<noteq> JUndefined) ''page''
                    (get_prop options ''page'') order;
          order = assign_if (truthy (get_prop options ''filter'')) ''filter''
                    (get_prop options ''filter'') order;
          order = assign_if (truthy (get_prop options ''filter_or'')) ''filter_or''
                    (JBool True) order
      in if fcard (fmdom order) > 0
         then JObj (object_literal [(''order'', JObj order)])
         else JObj fmempty)"

section \<open>Resource facades\<close>

text \<open>
  A facade method evaluates the arguments of \<open>this.client.request(...)\<close> and then
  calls the dispatcher. A call \<open>f(options)\<close> of a free identifier \<open>f\<close> resolves the
  name in the module's scope first: \<open>buildOrderParams\<close> is the one function declared
  there, the other declarations are a constant and classes, whose call throws a
  \<open>TypeError\<close>, and a name declared nowhere throws a \<open>ReferenceError\<close>. The runtime has
  no global of the names used here.
\<close>

definition module_identifiers :: "string list" where
  "module_identifiers =
     [''BASE_URL'', ''TracelinkClient'', ''TracelinkError'', ''buildOrderParams'',
      ''CompanyClient'', ''UserClient'', ''OrderClient'', ''SuborderClient'',
      ''ObjectClient'', ''UtilClient'']"

definition call_identifier :: "string \<Rightarrow> obj \<Rightarrow> js_error + jsval" where
  "call_identifier f arg =
     (if f = ''buildOrderParams'' then Inr (buildOrderParams (Some arg))
      else if f \<in> set module_identifiers then Inl TypeError
      else Inl (ReferenceError (f @ '' is not defined'')))"

text \<open>When evaluating an argument throws, the method throws before any request is sent.\<close>

definition with_arg :: "js_error + jsval \<Rightarrow> (jsval \<Rightarrow> outcome) \<Rightarrow> outcome" where
  "with_arg a k = (case a of Inl e \<Rightarrow> ([], Inl e) | Inr v \<Rightarrow> k v)"

subsection \<open>List-style methods\<close>

definition CompanyClient_listDepartments :: "client \<Rightarrow> transport \<Rightarrow> obj option \<Rightarrow> outcome" where
  "CompanyClient_listDepartments c fetch options =
     with_arg (call_identifier ''buildOrderParams'' (default_obj options))
       (\<lambda>params. request c fetch ''/company/dept/list'' (Some params) None)"

definition UserClient_list :: "client \<Rightarrow> transport \<Rightarrow> obj option \<Rightarrow> outcome" where
  "UserClient_list c fetch options =
     with_arg (call_identifier ''buildOrderParams'' (default_obj options))
       (\<lambda>params. request c fetch ''/user/list'' (Some params) None)"

definition UserClient_listGroups :: "client \<Rightarrow> transport \<Rightarrow> obj option \<Rightarrow> outcome" where
  "UserClient_listGroups c fetch options =
     with_arg (call_identifier ''buildOrderParams'' (default_obj options))
       (\<lambda>params. request c fetch ''/user/group/list'' (Some params) None)"

definition OrderClient_list :: "client \<Rightarrow> transport \<Rightarrow> obj option \<Rightarrow> outcome" where
  "OrderClient_list c fetch options =
     with_arg (call_identifier ''buildOrderParams'' (default_obj options))
       (\<lambda>params. request c fetch ''/tracelink/order/list'' (Some params) None)"

definition OrderClient_listModule ::
  "client \<Rightarrow> transport \<Rightarrow> string \<Rightarrow> jsval \<Rightarrow> jsval \<Rightarrow> obj option \<Rightarrow> outcome" where
  "OrderClient_listModule c fetch module_name order_id order_sub_id options =
     (let endpoint = ''/tracelink/order/list/module/'' @ module_name;
          endpoint = (if truthy order_id
                      then
                        let endpoint = endpoint @ ''/'' @ to_string order_id
                        in if truthy order_sub_id
                           then endpoint @ ''/'' @ to_string order_sub_id
                           else endpoint
                      else endpoint)
      in with_arg (call_identifier ''buildOrderParams'' (default_obj options))
           (\<lambda>params. request c fetch endpoint (Some params) None))"

text \<open>\<open>SuborderClient.list\<close> as \<open>src/tracelink-client.js\<close> (the CommonJS build) has it.\<close>

definition SuborderClient_list :: "client \<Rightarrow> transport \<Rightarrow> obj option \<Rightarrow> outcome" where
  "SuborderClient_list c fetch options =
     with_arg (call_identifier ''build_order_params'' (default_obj options))
       (\<lambda>params. request c fetch ''/tracelink/suborder/list'' (Some params) None)"

text \<open>\<open>SuborderClient.list\<close> as the ES-module build of the same client has it.\<close>

definition SuborderClient_list_esm :: "client \<Rightarrow> transport \<Rightarrow> obj option \<Rightarrow> outcome" where
  "SuborderClient_list_esm c fetch options =
     with_arg (call_identifier ''buildOrderParams'' (default_obj options))
       (\<lambda>params. request c fetch ''/tracelink/suborder/list'' (Some params) None)"

definition ObjectClient_list :: "client \<Rightarrow> transport \<Rightarrow> string \<Rightarrow> obj option \<Rightarrow> outcome" where
  "ObjectClient_list c fetch module_name options =
     with_arg (call_identifier ''buildOrderParams'' (default_obj options))
       (\<lambda>params. request c fetch (''/object/list/module/'' @ module_name) (Some params) None)"

definition ObjectClient_listRelations ::
  "client \<Rightarrow> transport \<Rightarrow> string \<Rightarrow> string \<Rightarrow> jsval \<Rightarrow> obj option \<Rightarrow> outcome" where
  "ObjectClient_listRelations c fetch from_module to_module to_module_id options =
     (let endpoint = ''/object/module/list/'' @ from_module @ ''/to/'' @ to_module;
          endpoint = (if truthy to_module_id
                      then endpoint @ ''/'' @ to_string to_module_id
                      else endpoint)
      in with_arg (call_identifier ''buildOrderParams'' (default_obj options))
           (\<lambda>params. request c fetch endpoint (Some params) None))"

definition UtilClient_listDocuments :: "client \<Rightarrow> transport \<Rightarrow> string \<Rightarrow> obj option \<Rightarrow> outcome" where
  "UtilClient_listDocuments c fetch module_name options =
     with_arg (call_identifier ''buildOrderParams'' (default_obj options))
       (\<lambda>params. request c fetch (''/util/doc/list/module/'' @ module_name) (Some params) None)"

subsection \<open>Updates that merge an identifier with the caller's data\<close>




subsection \<open>Deletes\<close>

definition OrderClient_delete :: "client \<Rightarrow> transport \<Rightarrow> jsval \<Rightarrow> outcome" where
  "OrderClient_delete c fetch order_id =
     request c fetch ''/tracelink/order/update''
       (Some (JObj (object_literal
          [(''object'',
            JObj (object_literal [(''order_id'', order_id), (''xdelete'', JStr ''1'')]))])))
       None"

definition OrderClient_deleteModule ::
  "client \<Rightarrow> transport \<Rightarrow> string \<Rightarrow> string \<Rightarrow> jsval \<Rightarrow> outcome" where
  "OrderClient_deleteModule c fetch module_name id_field id_value =
     request c fetch (''/tracelink/order/update/object/module/'' @ module_name)
       (Some (JObj (object_literal
          [(''object'',
            JObj (object_literal [(id_field, id_value), (''xdelete'', JStr ''1'')]))])))
       None"

definition SuborderClient_delete :: "client \<Rightarrow> transport \<Rightarrow> jsval \<Rightarrow> outcome" where
  "SuborderClient_delete c fetch order_sub_id =
     request c fetch ''/tracelink/suborder/update''
       (Some (JObj (object_literal
          [(''object'',
            JObj (object_literal [(''order_sub_id'', order_sub_id), (''xdelete'', JStr ''1'')]))])))
       None"

definition ObjectClient_delete ::
  "client \<Rightarrow> transport \<Rightarrow> string \<Rightarrow> string \<Rightarrow> jsval \<Rightarrow> outcome" where
  "ObjectClient_delete c fetch module_name id_field id_value =
     request c fetch (''/object/update/'' @ module_name)
       (Some (JObj (object_literal
          [(''object'',
            JObj (object_literal [(id_field, id_value), (''xdelete'', JStr ''1'')]))])))
       None"

definition ObjectClient_deleteRelation ::
  "client \<Rightarrow> transport \<Rightarrow> string \<Rightarrow> string \<Rightarrow> string \<Rightarrow> jsval \<Rightarrow> outcome" where
  "ObjectClient_deleteRelation c fetch from_module to_module id_field id_value =
     request c fetch (''/object/module/update/'' @ from_module @ ''/to/'' @ to_module)
       (Some (JObj (object_literal
          [(''object'',
            JObj (object_literal [(id_field, id_value), (''xdelete'', JStr ''1'')]))])))
       None"

section \<open>Observations and example inputs\<close>

text \<open>
  The field \<open>k\<close> of the \<open>order\<close> object inside a result of the normalizer, if the
  result has an \<open>order\<close> object and that object has the field.
\<close>

definition order_field :: "jsval \<Rightarrow> string \<Rightarrow> jsval option" where
  "order_field r k =
     (case r of
        JObj m \<Rightarrow> (case fmlookup m ''order'' of Some (JObj ord) \<Rightarrow> fmlookup ord k | _ \<Rightarrow> None)
      | _ \<Rightarrow> None)"

text \<open>
  The \<open>object\<close> field of the body of the one request a call sent, when the call sent
  exactly one request and its body is of the form \<open>{object: {...}}\<close>.
\<close>

definition sent_object :: "outcome \<Rightarrow> obj option" where
  "sent_object out =
     (case fst out of
        [r] \<Rightarrow> (case req_body r of
                  JObj b \<Rightarrow> (case fmlookup b ''object'' of Some (JObj ob) \<Rightarrow> Some ob | _ \<Rightarrow> None)
                | _ \<Rightarrow> None)
      | _ \<Rightarrow> None)"

text \<open>
  A delete done as an update: the call sent one request, a POST to the update endpoint,
  whose \<open>object\<close> has \<open>xdelete\<close> set to \<open>'1'\<close> and has the identifier field; the field
  holds the identifier unless it is named \<open>xdelete\<close> itself.
\<close>

definition update_style_delete :: "outcome \<Rightarrow> string \<Rightarrow> string \<Rightarrow> jsval \<Rightarrow> bool" where
  "update_style_delete out endpoint id_field id_value =
     (map req_method (fst out) = [''POST''] \<and>
      map req_url (fst out) = [BASE_URL @ endpoint] \<and>
      (case sent_object out of
         None \<Rightarrow> False
       | Some ob \<Rightarrow>
           fmlookup ob ''xdelete'' = Some (JStr ''1'') \<and>
           id_field |\<in>| fmdom ob \<and>
           (id_field \<noteq> ''xdelete'' \<longrightarrow> fmlookup ob id_field = Some id_value)))"

definition example_client :: client where
  "example_client =
     \<lparr> access_token = JStr ''secret'', format = JStr ''json'', charset = JStr ''UTF-8'' \<rparr>"

definition example_error_envelope :: obj where
  "example_error_envelope =
     object_literal
       [(''status'', JStr ''error''), (''code'', JNum 404), (''message'', JStr ''Not found'')]"

definition example_ok_envelope :: obj where
  "example_ok_envelope =
     object_literal
       [(''status'', JStr ''ok''), (''code'', JNum 200), (''message'', JStr ''fine'')]"

text \<open>
  A service that answers every request with the envelope \<open>env\<close> and, when
  \<open>cache_header\<close> is given, with that value in the header \<open>X-ResultFromCache\<close>.
\<close>

definition answering :: "obj \<Rightarrow> string option \<Rightarrow> transport" where
  "answering env cache_header req =
     Inr \<lparr> json = Inr env,
           headers_get = (\<lambda>h. if h = ''X-ResultFromCache'' then cache_header else None) \<rparr>"

section \<open>Basic facts\<close>

lemma get_prop_empty: "get_prop fmempty k = JUndefined"
  by (simp add: get_prop_def)

lemma get_prop_upd: "get_prop (fmupd a v m) k = (if a = k then v else get_prop m k)"
  by (simp add: get_prop_def)

lemma object_literal_simps:
  "object_literal [] = fmempty"
  "object_literal [(k, v)] = fmupd k v fmempty"
  "object_literal [(k, v), (k', v')] = fmupd k' v' (fmupd k v fmempty)"
  by (simp_all add: object_literal_def)

lemma fmupd_single_inject: "fmupd k v fmempty = fmupd k w fmempty \<Longrightarrow> v = w"
  by (metis fmupd_lookup option.inject)

lemma fmdom_fempty_iff: "(fmdom m = {||}) = (m = fmempty)"
  by (metis fmdrop_fset_fmdom fmdrop_fset_null fmdom_empty)

lemma fcard_fmdom_pos: "(0 < fcard (fmdom m)) = (m \<noteq> fmempty)"
proof -
  have "(m \<noteq> fmempty) = (fmdom m \<noteq> {||})"
    by (simp add: fmdom_fempty_iff)
  also have "\<dots> = (fcard (fmdom m) \<noteq> 0)"
    by simp
  also have "\<dots> = (0 < fcard (fmdom m))"
    by (rule neq0_conv)
  finally show ?thesis by (rule sym)
qed

lemma assign_if_lookup:
  "fmlookup (assign_if cond k v m) k' = (if cond \<and> k = k' then Some v else fmlookup m k')"
  by (simp add: assign_if_def)

lemma assign_if_empty: "(assign_if cond k v m = fmempty) = (\<not> cond \<and> m = fmempty)"
  by (simp add: assign_if_def)


subsection \<open>The dispatcher sends one POST\<close>

lemma request_sent_url: "map req_url (fst (request c fetch ep b opts)) = [BASE_URL @ ep]"
  by (simp add: request_def Let_def)

lemma request_sent_method: "map req_method (fst (request c fetch ep b opts)) = [''POST'']"
  by (simp add: request_def Let_def)

lemma request_sent_body:
  "map req_body (fst (request c fetch ep b opts)) =
     [case b of None \<Rightarrow> JObj fmempty | Some v \<Rightarrow> v]"
  by (simp add: request_def Let_def)

text \<open>What the dispatcher returns once the transport has delivered a parsed envelope.\<close>

lemma request_snd:
  assumes "fst (request c fetch ep b opts) = [r]" "fetch r = Inr resp" "json resp = Inr env"
  shows "snd (request c fetch ep b opts) =
     (let data = (case headers_get resp ''X-ResultFromCache'' of
                    None \<Rightarrow> env
                  | Some key \<Rightarrow>
                      if key \<noteq> []
                      then fmupd ''_idempotency_key'' (JStr key) (fmupd ''_cached'' (JBool True) env)
                      else env)
      in if get_prop data ''status'' = JStr ''error''
         then Inl (TracelinkError \<lparr> name = ''TracelinkError'',
                     message = Error_message (get_prop data ''message''),
                     code = get_prop data ''code'', response = JObj data \<rparr>)
         else Inr (JObj data))"
  using assms by (simp add: request_def Let_def new_TracelinkError_def)

lemma sent_object_request:
  "sent_object (request c fetch ep (Some (JObj (fmupd ''object'' (JObj ob) fmempty))) opts)
     = Some ob"
  by (simp add: sent_object_def request_def Let_def)

subsection \<open>Calls of free identifiers\<close>

lemma call_buildOrderParams:
  "call_identifier ''buildOrderParams'' m = Inr (buildOrderParams (Some m))"
  by (simp add: call_identifier_def)

lemma call_build_order_params:
  "call_identifier ''build_order_params'' m =
     Inl (ReferenceError ''build_order_params is not defined'')"
  by (simp add: call_identifier_def module_identifiers_def)

lemma buildOrderParams_default:
  "buildOrderParams (Some (default_obj options)) = buildOrderParams options"
  by (cases options) (simp_all add: buildOrderParams_def default_obj_def)

subsection \<open>The shape of the normalizer's result\<close>

lemma buildOrderParams_shape:
  "buildOrderParams options = JObj fmempty \<or>
   (\<exists>ord. ord \<noteq> fmempty \<and>
      buildOrderParams options = JObj (fmupd ''order'' (JObj ord) fmempty))"
  by (auto simp add: buildOrderParams_def Let_def object_literal_simps fcard_fmdom_pos)

text \<open>The fields of the \<open>order\<close> object, one rule for each recognized option.\<close>

lemma order_field_wrap:
  "order_field (if 0 < fcard (fmdom X) then JObj (object_literal [(''order'', JObj X)])
                else JObj fmempty) k = fmlookup X k"
  by (cases "X = fmempty") (simp_all add: order_field_def object_literal_simps fcard_fmdom_pos)

lemma order_field_buildOrderParams:
  "order_field (buildOrderParams (Some opts)) k =
     (if k = ''filter_or'' \<and> truthy (get_prop opts ''filter_or'') then Some (JBool True)
      else if k = ''filter'' \<and> truthy (get_prop opts ''filter'')
        then Some (get_prop opts ''filter'')
      else if k = ''page'' \<and> get_prop opts ''page'' \<noteq> JUndefined
        then Some (get_prop opts ''page'')
      else if k = ''limit'' \<and> get_prop opts ''limit'' \<noteq> JUndefined
        then Some (get_prop opts ''limit'')
      else if k = ''reverse'' \<and> truthy (get_prop opts ''reverse'') then Some (JNum 1)
      else if k = ''sort'' \<and> truthy (get_prop opts ''sort'')
        then Some (case get_prop opts ''sort'' of
                     JArr xs \<Rightarrow> JStr (Array_join xs '','') | v \<Rightarrow> v)
      else None)"
  unfolding buildOrderParams_def Let_def order_field_wrap
  by (auto simp add: assign_if_lookup default_obj_def)

subsection \<open>\<open>join\<close> on strings is comma separation\<close>

lemma join_loop_pos: "k > 0 \<Longrightarrow> join_loop sep R k es = R @ concat (map (\<lambda>e. sep @ e) es)"
  by (induction es arbitrary: R k) simp_all

lemma comma_separated_Cons: "comma_separated (s # ts) = s @ concat (map (\<lambda>e. '','' @ e) ts)"
  by (induction ts arbitrary: s) simp_all

lemma Array_join_strings: "Array_join (map JStr ss) '','' = comma_separated ss"
proof (cases ss)
  case Nil
  then show ?thesis by (simp add: Array_join_def)
next
  case (Cons s ts)
  then show ?thesis
    by (simp add: Array_join_def join_loop_pos comma_separated_Cons o_def)
qed

section \<open>List-style methods and the normalizer (C1)\<close>

text \<open>
  Eight of the nine list-style methods of \<open>src/tracelink-client.js\<close>, and
  \<open>SuborderClient.list\<close> of the ES-module build, send exactly the normalizer's result
  as the body.
\<close>

lemma list_facades_body:
  "map req_body (fst (CompanyClient_listDepartments c fetch options)) = [buildOrderParams options]"
  "map req_body (fst (UserClient_list c fetch options)) = [buildOrderParams options]"
  "map req_body (fst (UserClient_listGroups c fetch options)) = [buildOrderParams options]"
  "map req_body (fst (OrderClient_list c fetch options)) = [buildOrderParams options]"
  "map req_body (fst (OrderClient_listModule c fetch module_name order_id order_sub_id options))
     = [buildOrderParams options]"
  "map req_body (fst (SuborderClient_list_esm c fetch options)) = [buildOrderParams options]"
  "map req_body (fst (ObjectClient_list c fetch module_name options)) = [buildOrderParams options]"
  "map req_body (fst (ObjectClient_listRelations c fetch from_module to_module to_module_id options))
     = [buildOrderParams options]"
  "map req_body (fst (UtilClient_listDocuments c fetch module_name options))
     = [buildOrderParams options]"
  by (simp_all add: CompanyClient_listDepartments_def UserClient_list_def UserClient_listGroups_def
      OrderClient_list_def OrderClient_listModule_def SuborderClient_list_esm_def
      ObjectClient_list_def ObjectClient_listRelations_def UtilClient_listDocuments_def Let_def
      call_buildOrderParams with_arg_def request_sent_body buildOrderParams_default)

text \<open>
  C1. Every list-style method passes \<open>buildOrderParams(options)\<close> as the body to the
  dispatcher. In \<open>src/tracelink-client.js\<close> the method \<open>SuborderClient.list\<close> does not: it
  calls \<open>build_order_params\<close>, a name declared nowhere, so for every client, transport
  and options it throws a \<open>ReferenceError\<close> and sends no request.
\<close>

theorem SuborderClient_list_throws:
  "SuborderClient_list c fetch options =
     ([], Inl (ReferenceError ''build_order_params is not defined''))"
  by (simp add: SuborderClient_list_def call_build_order_params with_arg_def)

section \<open>The dispatcher's envelope handling (C2, C3)\<close>

text \<open>
  C2, as stated: an envelope with status \<open>error\<close> reaches the raised error without cache
  annotation. It fails: the service answers with an error envelope and the header
  \<open>X-ResultFromCache: key-1\<close>, and the response attached to the error carries
  \<open>_cached\<close> and \<open>_idempotency_key\<close>.
\<close>

theorem request_error_cached_counterexample:
  "get_prop example_error_envelope ''status'' = JStr ''error'' \<and>
   snd (request example_client (answering example_error_envelope (Some ''key-1''))
          ''/user'' None None) =
     Inl (TracelinkError
       \<lparr> name = ''TracelinkError'', message = ''Not found'', code = JNum 404,
         response = JObj (object_literal
           [(''status'', JStr ''error''), (''code'', JNum 404), (''message'', JStr ''Not found''),
            (''_cached'', JBool True), (''_idempotency_key'', JStr ''key-1'')]) \<rparr>)"
  by (simp add: request_def Let_def new_TracelinkError_def answering_def
      example_error_envelope_def object_literal_def get_prop_def Error_message_def assign_if_def)

text \<open>
  C2, amended: the cache annotation is applied before the status check, on every
  path. For an envelope with status \<open>error\<close>, the response attached to the raised error
  is the envelope with \<open>_cached = true\<close> and \<open>_idempotency_key\<close> set to the header's
  value when the header \<open>X-ResultFromCache\<close> is present and not empty, and the envelope
  unchanged when the header is absent or empty.
\<close>

theorem request_error_annotation:
  assumes "fst (request c fetch ep b opts) = [r]" and "fetch r = Inr resp"
    and "json resp = Inr env" and "get_prop env ''status'' = JStr ''error''"
  shows "\<exists>e. snd (request c fetch ep b opts) = Inl (TracelinkError e) \<and>
    (\<forall>key. headers_get resp ''X-ResultFromCache'' = Some key \<and> key \<noteq> [] \<longrightarrow>
       response e =
         JObj (fmupd ''_idempotency_key'' (JStr key) (fmupd ''_cached'' (JBool True) env))) \<and>
    (headers_get resp ''X-ResultFromCache'' = None \<or>
     headers_get resp ''X-ResultFromCache'' = Some []
       \<longrightarrow> response e = JObj env)"
  using assms(4)
  by (auto simp: request_snd[OF assms(1-3)] Let_def get_prop_upd split: option.splits)

theorem request_error_annotation_witness:
  "get_prop example_error_envelope ''status'' = JStr ''error'' \<and>
   (\<exists>e. snd (request example_client (answering example_error_envelope (Some ''key-1''))
              ''/user'' None None) = Inl (TracelinkError e) \<and>
        response e = JObj (fmupd ''_idempotency_key'' (JStr ''key-1'')
                             (fmupd ''_cached'' (JBool True) example_error_envelope)))"
proof -
  let ?f = "answering example_error_envelope (Some ''key-1'')"
  let ?r = "hd (fst (request example_client ?f ''/user'' None None))"
  let ?resp = "\<lparr> json = Inr example_error_envelope,
      headers_get = (\<lambda>h. if h = ''X-ResultFromCache'' then Some ''key-1'' else None) \<rparr>"
  have h1: "fst (request example_client ?f ''/user'' None None) = [?r]"
    by (simp add: request_def Let_def)
  have h2: "?f ?r = Inr ?resp"
    by (simp add: answering_def)
  have h3: "json ?resp = Inr example_error_envelope"
    by simp
  have h4: "get_prop example_error_envelope ''status'' = JStr ''error''"
    by (simp add: example_error_envelope_def object_literal_def get_prop_def)
  show ?thesis
    using request_error_annotation [OF h1 h2 h3 h4] h4 by simp
qed

text \<open>
  C3, as stated: the response attached to the raised error equals the full envelope,
  the cache annotation being granted to the other statuses only. It fails: the service
  answers with an error envelope and the header \<open>X-ResultFromCache: retry-7\<close>, and the
  response attached to the error is the envelope with \<open>_cached\<close> and \<open>_idempotency_key\<close>
  added, which is not the envelope.
\<close>

theorem request_error_response_counterexample:
  "get_prop example_error_envelope ''status'' = JStr ''error'' \<and>
   snd (request example_client (answering example_error_envelope (Some ''retry-7''))
          ''/tracelink/order/create'' None None) =
     Inl (TracelinkError
       \<lparr> name = ''TracelinkError'', message = ''Not found'', code = JNum 404,
         response = JObj (fmupd ''_idempotency_key'' (JStr ''retry-7'')
                            (fmupd ''_cached'' (JBool True) example_error_envelope)) \<rparr>) \<and>
   JObj (fmupd ''_idempotency_key'' (JStr ''retry-7'')
           (fmupd ''_cached'' (JBool True) example_error_envelope))
     \<noteq> JObj example_error_envelope"
proof -
  have status: "get_prop example_error_envelope ''status'' = JStr ''error''"
    by (simp add: example_error_envelope_def object_literal_def get_prop_def)
  have result: "snd (request example_client (answering example_error_envelope (Some ''retry-7''))
          ''/tracelink/order/create'' None None) =
     Inl (TracelinkError
       \<lparr> name = ''TracelinkError'', message = ''Not found'', code = JNum 404,
         response = JObj (fmupd ''_idempotency_key'' (JStr ''retry-7'')
                            (fmupd ''_cached'' (JBool True) example_error_envelope)) \<rparr>)"
    by (simp add: request_def Let_def new_TracelinkError_def answering_def
        example_error_envelope_def object_literal_def get_prop_def Error_message_def assign_if_def)
  have "fmlookup (fmupd ''_idempotency_key'' (JStr ''retry-7'')
           (fmupd ''_cached'' (JBool True) example_error_envelope)) ''_cached'' = Some (JBool True)"
    by simp
  moreover have "fmlookup example_error_envelope ''_cached'' = None"
    by (simp add: example_error_envelope_def object_literal_def)
  ultimately have differ: "fmupd ''_idempotency_key'' (JStr ''retry-7'')
           (fmupd ''_cached'' (JBool True) example_error_envelope) \<noteq> example_error_envelope"
    by (metis option.distinct(1))
  from status result differ show ?thesis by simp
qed

text \<open>
  C3, amended: once the transport has delivered a parsed envelope \<open>env\<close>, the dispatcher
  raises an error if and only if \<open>env.status\<close> is the string \<open>error\<close>. The error is a
  \<open>TracelinkError\<close> whose code is \<open>env.code\<close>, whose message is \<open>env.message\<close> (a string,
  as the envelope declares it) and whose response is the envelope with the optional
  cache annotation; with any other status the envelope is returned, with the same
  optional cache annotation. The annotated envelope \<open>data\<close> is \<open>env\<close> with \<open>_cached = true\<close>
  and \<open>_idempotency_key\<close> set to the header's value when the header \<open>X-ResultFromCache\<close>
  is present and not empty, and \<open>env\<close> itself when the header is absent or empty.
\<close>

theorem request_raises_iff_error_status:
  assumes "fst (request c fetch ep b opts) = [r]" and "fetch r = Inr resp"
    and "json resp = Inr env"
  shows "\<exists>data.
    (\<forall>key. headers_get resp ''X-ResultFromCache'' = Some key \<and> key \<noteq> [] \<longrightarrow>
       data = fmupd ''_idempotency_key'' (JStr key) (fmupd ''_cached'' (JBool True) env)) \<and>
    (headers_get resp ''X-ResultFromCache'' = None \<or>
     headers_get resp ''X-ResultFromCache'' = Some [] \<longrightarrow> data = env) \<and>
    (\<forall>k. k \<noteq> ''_cached'' \<and> k \<noteq> ''_idempotency_key'' \<longrightarrow> fmlookup data k = fmlookup env k) \<and>
    ((\<exists>e. snd (request c fetch ep b opts) = Inl e) \<longleftrightarrow>
       get_prop env ''status'' = JStr ''error'') \<and>
    (if get_prop env ''status'' = JStr ''error''
     then \<exists>e. snd (request c fetch ep b opts) = Inl (TracelinkError e) \<and>
            name e = ''TracelinkError'' \<and>
            code e = get_prop env ''code'' \<and>
            (\<forall>m. get_prop env ''message'' = JStr m \<longrightarrow> message e = m) \<and>
            response e = JObj data
     else snd (request c fetch ep b opts) = Inr (JObj data))"
proof -
  define data where "data =
    (case headers_get resp ''X-ResultFromCache'' of
       None \<Rightarrow> env
     | Some key \<Rightarrow>
         if key \<noteq> []
         then fmupd ''_idempotency_key'' (JStr key) (fmupd ''_cached'' (JBool True) env)
         else env)"
  have keep: "k \<noteq> ''_cached'' \<and> k \<noteq> ''_idempotency_key'' \<longrightarrow> fmlookup data k = fmlookup env k"
    for k
    by (auto simp: data_def split: option.splits)
  then have props: "get_prop data ''status'' = get_prop env ''status''"
    "get_prop data ''message'' = get_prop env ''message''"
    "get_prop data ''code'' = get_prop env ''code''"
    by (simp_all add: get_prop_def)
  have present: "headers_get resp ''X-ResultFromCache'' = Some key \<and> key \<noteq> [] \<longrightarrow>
       data = fmupd ''_idempotency_key'' (JStr key) (fmupd ''_cached'' (JBool True) env)" for key
    by (simp add: data_def)
  have none: "headers_get resp ''X-ResultFromCache'' = None \<or>
     headers_get resp ''X-ResultFromCache'' = Some [] \<longrightarrow> data = env"
    by (auto simp add: data_def)
  have res: "snd (request c fetch ep b opts) =
      (if get_prop env ''status'' = JStr ''error''
       then Inl (TracelinkError \<lparr> name = ''TracelinkError'',
                     message = Error_message (get_prop env ''message''),
                     code = get_prop env ''code'', response = JObj data \<rparr>)
       else Inr (JObj data))"
    using props by (simp add: request_snd[OF assms] Let_def data_def[symmetric])
  show ?thesis
    apply (rule exI[of _ data])
    using keep none present by (auto simp: res Error_message_def)
qed

theorem request_raises_iff_error_status_witness:
  "snd (request example_client (answering example_ok_envelope None) ''/user'' None None)
     = Inr (JObj example_ok_envelope) \<and>
   (\<exists>e. snd (request example_client (answering example_error_envelope None) ''/user'' None None)
           = Inl (TracelinkError e) \<and>
        message e = ''Not found'' \<and> code e = JNum 404 \<and>
        response e = JObj example_error_envelope)"
proof -
  let ?f = "answering example_ok_envelope None"
  let ?r = "hd (fst (request example_client ?f ''/user'' None None))"
  let ?resp = "\<lparr> json = Inr example_ok_envelope,
      headers_get = (\<lambda>h. if h = ''X-ResultFromCache'' then None else None) \<rparr>"
  have h1: "fst (request example_client ?f ''/user'' None None) = [?r]"
    by (simp add: request_def Let_def)
  have h2: "?f ?r = Inr ?resp"
    by (simp add: answering_def)
  have h3: "json ?resp = Inr example_ok_envelope"
    by simp
  have h4: "get_prop example_ok_envelope ''status'' \<noteq> JStr ''error''"
    by (simp add: example_ok_envelope_def object_literal_def get_prop_def)
  have ok: "snd (request example_client ?f ''/user'' None None) = Inr (JObj example_ok_envelope)"
    using request_raises_iff_error_status [OF h1 h2 h3] h4 by auto
  let ?g = "answering example_error_envelope None"
  let ?q = "hd (fst (request example_client ?g ''/user'' None None))"
  let ?resq = "\<lparr> json = Inr example_error_envelope,
      headers_get = (\<lambda>h. if h = ''X-ResultFromCache'' then None else None) \<rparr>"
  have g1: "fst (request example_client ?g ''/user'' None None) = [?q]"
    by (simp add: request_def Let_def)
  have g2: "?g ?q = Inr ?resq"
    by (simp add: answering_def)
  have g3: "json ?resq = Inr example_error_envelope"
    by simp
  have g4: "get_prop example_error_envelope ''status'' = JStr ''error''"
    "get_prop example_error_envelope ''message'' = JStr ''Not found''"
    "get_prop example_error_envelope ''code'' = JNum 404"
    by (simp_all add: example_error_envelope_def object_literal_def get_prop_def)
  have err: "\<exists>e. snd (request example_client ?g ''/user'' None None) = Inl (TracelinkError e) \<and>
        message e = ''Not found'' \<and> code e = JNum 404 \<and>
        response e = JObj example_error_envelope"
    using request_raises_iff_error_status [OF g1 g2 g3] g4 by auto
  from ok err show ?thesis by blast
qed

section \<open>The normalizer's fields (C4, C5, C6, C10)\<close>

text \<open>
  C4. When no recognized option produces a field (the options are omitted, or empty, or
  every recognized option is falsy or undefined as its rule has it), \<open>buildOrderParams\<close>
  returns the empty object, without an \<open>order\<close> key; and for no options at all does it
  return \<open>{order: {}}\<close>.
\<close>

theorem buildOrderParams_no_empty_order:
  "buildOrderParams None = JObj fmempty \<and>
   buildOrderParams (Some fmempty) = JObj fmempty \<and>
   (\<not> truthy (get_prop opts ''sort'') \<and> \<not> truthy (get_prop opts ''reverse'') \<and>
    get_prop opts ''limit'' = JUndefined \<and> get_prop opts ''page'' = JUndefined \<and>
    \<not> truthy (get_prop opts ''filter'') \<and> \<not> truthy (get_prop opts ''filter_or'')
      \<longrightarrow> buildOrderParams (Some opts) = JObj fmempty) \<and>
   buildOrderParams options \<noteq> JObj (object_literal [(''order'', JObj fmempty)])"
proof -
  have a: "buildOrderParams None = JObj fmempty"
    by (simp add: buildOrderParams_def default_obj_def get_prop_def assign_if_def fcard_fmdom_pos)
  have b: "buildOrderParams (Some fmempty) = JObj fmempty"
    by (simp add: buildOrderParams_def default_obj_def get_prop_def assign_if_def fcard_fmdom_pos)
  have c: "\<not> truthy (get_prop opts ''sort'') \<and> \<not> truthy (get_prop opts ''reverse'') \<and>
    get_prop opts ''limit'' = JUndefined \<and> get_prop opts ''page'' = JUndefined \<and>
    \<not> truthy (get_prop opts ''filter'') \<and> \<not> truthy (get_prop opts ''filter_or'')
      \<longrightarrow> buildOrderParams (Some opts) = JObj fmempty"
    by (simp add: buildOrderParams_def default_obj_def assign_if_def fcard_fmdom_pos)
  have d: "buildOrderParams options \<noteq> JObj (object_literal [(''order'', JObj fmempty)])"
    using buildOrderParams_shape[of options]
    by (auto simp: object_literal_simps dest!: fmupd_single_inject)
  from a b c d show ?thesis by blast
qed

theorem buildOrderParams_no_empty_order_witness:
  "buildOrderParams (Some (object_literal [(''sort'', JStr []), (''reverse'', JBool False),
      (''filter'', JNull), (''filter_or'', JNum 0)])) = JObj fmempty"
  using buildOrderParams_no_empty_order [of "object_literal [(''sort'', JStr []),
      (''reverse'', JBool False), (''filter'', JNull), (''filter_or'', JNum 0)]"]
  by (simp add: object_literal_def get_prop_def)

text \<open>
  C5, as stated: a sort given as a single string is passed through to \<open>order.sort\<close>. It
  fails at the empty string, which is falsy: \<open>buildOrderParams({sort: ''})\<close> is the empty
  object and has no \<open>order.sort\<close>.
\<close>

theorem buildOrderParams_empty_sort_counterexample:
  "buildOrderParams (Some (object_literal [(''sort'', JStr [])])) = JObj fmempty \<and>
   order_field (buildOrderParams (Some (object_literal [(''sort'', JStr [])]))) ''sort''
     \<noteq> Some (JStr [])"
  by (simp add: buildOrderParams_def Let_def default_obj_def object_literal_def get_prop_def
      assign_if_def fcard_fmdom_pos order_field_def)

text \<open>
  C5, amended: a sort given as a single non-empty string is passed through unchanged to
  \<open>order.sort\<close>, and a sort given as a sequence of strings is joined with commas into
  \<open>order.sort\<close>, in the order of the sequence.
\<close>

theorem buildOrderParams_sort:
  "(get_prop opts ''sort'' = JStr s \<and> s \<noteq> [] \<longrightarrow>
      order_field (buildOrderParams (Some opts)) ''sort'' = Some (JStr s)) \<and>
   (get_prop opts ''sort'' = JArr (map JStr ss) \<longrightarrow>
      order_field (buildOrderParams (Some opts)) ''sort'' = Some (JStr (comma_separated ss)))"
  by (simp add: order_field_buildOrderParams Array_join_strings)

theorem buildOrderParams_sort_witness:
  "order_field (buildOrderParams (Some (object_literal [(''sort'', JStr ''name'')]))) ''sort''
     = Some (JStr ''name'') \<and>
   order_field (buildOrderParams (Some (object_literal [(''sort'', JArr [JStr ''a'', JStr ''b''])])))
     ''sort'' = Some (JStr ''a,b'')"
  using buildOrderParams_sort [of "object_literal [(''sort'', JStr ''name'')]" "''name''" "[]"]
    buildOrderParams_sort [of "object_literal [(''sort'', JArr [JStr ''a'', JStr ''b''])]" "[]"
      "[''a'', ''b'']"]
  by (simp add: object_literal_def get_prop_def)

text \<open>
  C6. \<open>limit\<close> and \<open>page\<close> are copied verbatim into \<open>order.limit\<close> and \<open>order.page\<close>
  whenever they are not \<open>undefined\<close>; in particular a value of zero is copied, and
  \<open>buildOrderParams({page: 0})\<close> is \<open>{order: {page: 0}}\<close>.
\<close>

theorem buildOrderParams_limit_page:
  "(get_prop opts ''limit'' \<noteq> JUndefined \<longrightarrow>
      order_field (buildOrderParams (Some opts)) ''limit'' = Some (get_prop opts ''limit'')) \<and>
   (get_prop opts ''page'' \<noteq> JUndefined \<longrightarrow>
      order_field (buildOrderParams (Some opts)) ''page'' = Some (get_prop opts ''page'')) \<and>
   (get_prop opts ''limit'' = JNum 0 \<longrightarrow>
      order_field (buildOrderParams (Some opts)) ''limit'' = Some (JNum 0)) \<and>
   (get_prop opts ''page'' = JNum 0 \<longrightarrow>
      order_field (buildOrderParams (Some opts)) ''page'' = Some (JNum 0)) \<and>
   buildOrderParams (Some (object_literal [(''page'', JNum 0)])) =
     JObj (object_literal [(''order'', JObj (object_literal [(''page'', JNum 0)]))])"
proof -
  have "buildOrderParams (Some (object_literal [(''page'', JNum 0)])) =
     JObj (object_literal [(''order'', JObj (object_literal [(''page'', JNum 0)]))])"
    by (simp add: buildOrderParams_def Let_def default_obj_def object_literal_def get_prop_def
      assign_if_def fcard_fmdom_pos)
  then show ?thesis
    by (simp add: order_field_buildOrderParams)
qed

theorem buildOrderParams_limit_page_witness:
  "order_field (buildOrderParams (Some (object_literal [(''limit'', JNum 0), (''page'', JNum 0)])))
     ''limit'' = Some (JNum 0) \<and>
   order_field (buildOrderParams (Some (object_literal [(''limit'', JNum 0), (''page'', JNum 0)])))
     ''page'' = Some (JNum 0)"
  using buildOrderParams_limit_page [of "object_literal [(''limit'', JNum 0), (''page'', JNum 0)]"]
  by (simp add: object_literal_def get_prop_def)

text \<open>
  C10. A falsy sort (the empty string, \<open>undefined\<close> or absent, \<open>null\<close>) produces no
  \<open>order.sort\<close>, while an empty array is truthy and produces \<open>order.sort\<close> equal to the
  empty string: \<open>buildOrderParams({sort: []})\<close> is \<open>{order: {sort: ''}}\<close>, and
  \<open>buildOrderParams({sort: ''})\<close> is the empty object.
\<close>

theorem buildOrderParams_falsy_sort_or_empty_array:
  "(get_prop opts ''sort'' = JStr [] \<or> get_prop opts ''sort'' = JUndefined \<or>
    get_prop opts ''sort'' = JNull \<longrightarrow>
      order_field (buildOrderParams (Some opts)) ''sort'' = None) \<and>
   (get_prop opts ''sort'' = JArr [] \<longrightarrow>
      order_field (buildOrderParams (Some opts)) ''sort'' = Some (JStr [])) \<and>
   buildOrderParams (Some (object_literal [(''sort'', JStr [])])) = JObj fmempty \<and>
   buildOrderParams (Some (object_literal [(''sort'', JNull)])) = JObj fmempty \<and>
   buildOrderParams (Some (object_literal [(''sort'', JArr [])])) =
     JObj (object_literal [(''order'', JObj (object_literal [(''sort'', JStr [])]))])"
proof -
  have "buildOrderParams (Some (object_literal [(''sort'', JStr [])])) = JObj fmempty"
    "buildOrderParams (Some (object_literal [(''sort'', JNull)])) = JObj fmempty"
    "buildOrderParams (Some (object_literal [(''sort'', JArr [])])) =
     JObj (object_literal [(''order'', JObj (object_literal [(''sort'', JStr [])]))])"
    by (simp_all add: buildOrderParams_def Let_def default_obj_def object_literal_def get_prop_def
      assign_if_def fcard_fmdom_pos Array_join_def)
  then show ?thesis
    by (auto simp add: order_field_buildOrderParams Array_join_def)
qed

theorem buildOrderParams_falsy_sort_or_empty_array_witness:
  "order_field (buildOrderParams (Some (object_literal [(''sort'', JNull), (''page'', JNum 2)])))
     ''sort'' = None \<and>
   order_field (buildOrderParams (Some (object_literal [(''sort'', JArr []), (''page'', JNum 2)])))
     ''sort'' = Some (JStr [])"
  using buildOrderParams_falsy_sort_or_empty_array
      [of "object_literal [(''sort'', JNull), (''page'', JNum 2)]"]
    buildOrderParams_falsy_sort_or_empty_array
      [of "object_literal [(''sort'', JArr []), (''page'', JNum 2)]"]
  by (simp add: object_literal_def get_prop_def)

section \<open>Endpoint paths and bodies of the facades (C7, C8, C9)\<close>

text \<open>
  C7. \<open>order.listModule\<close> posts to the base path \<open>/tracelink/order/list/module/<name>\<close>
  when the order id is absent or zero (or otherwise falsy), whatever the suborder id;
  it appends the order id when that is truthy, and after it the suborder id when that
  is truthy too.
\<close>

theorem listModule_endpoint:
  "(order_id = JUndefined \<or> order_id = JNum 0 \<longrightarrow>
      map req_url (fst (OrderClient_listModule c fetch module_name order_id order_sub_id options))
        = [BASE_URL @ ''/tracelink/order/list/module/'' @ module_name]) \<and>
   (\<not> truthy order_id \<longrightarrow>
      map req_url (fst (OrderClient_listModule c fetch module_name order_id order_sub_id options))
        = [BASE_URL @ ''/tracelink/order/list/module/'' @ module_name]) \<and>
   (truthy order_id \<and> \<not> truthy order_sub_id \<longrightarrow>
      map req_url (fst (OrderClient_listModule c fetch module_name order_id order_sub_id options))
        = [BASE_URL @ ''/tracelink/order/list/module/'' @ module_name
             @ ''/'' @ to_string order_id]) \<and>
   (truthy order_id \<and> truthy order_sub_id \<longrightarrow>
      map req_url (fst (OrderClient_listModule c fetch module_name order_id order_sub_id options))
        = [BASE_URL @ ''/tracelink/order/list/module/'' @ module_name
             @ ''/'' @ to_string order_id @ ''/'' @ to_string order_sub_id])"
  by (auto simp add: OrderClient_listModule_def Let_def call_buildOrderParams with_arg_def
      request_sent_url)

theorem listModule_endpoint_witness:
  "map req_url (fst (OrderClient_listModule example_client (answering example_ok_envelope None)
      ''timereg'' (JNum 1040) JUndefined None))
     = [''https://tracelink.app/rest/tracelink/order/list/module/timereg/1040''] \<and>
   map req_url (fst (OrderClient_listModule example_client (answering example_ok_envelope None)
      ''timereg'' JUndefined JUndefined None))
     = [''https://tracelink.app/rest/tracelink/order/list/module/timereg''] \<and>
   map req_url (fst (OrderClient_listModule example_client (answering example_ok_envelope None)
      ''timereg'' (JNum 1040) (JNum 7) None))
     = [''https://tracelink.app/rest/tracelink/order/list/module/timereg/1040/7''] \<and>
   map req_url (fst (OrderClient_listModule example_client (answering example_ok_envelope None)
      ''timereg'' (JNum 0) (JNum 7) None))
     = [''https://tracelink.app/rest/tracelink/order/list/module/timereg'']"
  using
    listModule_endpoint [of "JNum 1040" example_client "answering example_ok_envelope None"
      "''timereg''" JUndefined None]
    listModule_endpoint [of JUndefined example_client "answering example_ok_envelope None"
      "''timereg''" JUndefined None]
    listModule_endpoint [of "JNum 1040" example_client "answering example_ok_envelope None"
      "''timereg''" "JNum 7" None]
    listModule_endpoint [of "JNum 0" example_client "answering example_ok_envelope None"
      "''timereg''" "JNum 7" None]
  by (simp add: BASE_URL_def string_of_int_def digit_char_def)

text \<open>
  C8. Each of the five delete operations sends one POST to its update endpoint, with a
  body whose \<open>object\<close> has \<open>xdelete\<close> set to \<open>'1'\<close> together with the identifier field.
\<close>

theorem deletes_are_updates:
  "update_style_delete (OrderClient_delete c fetch order_id)
     ''/tracelink/order/update'' ''order_id'' order_id \<and>
   update_style_delete (SuborderClient_delete c fetch order_sub_id)
     ''/tracelink/suborder/update'' ''order_sub_id'' order_sub_id \<and>
   update_style_delete (OrderClient_deleteModule c fetch module_name id_field id_value)
     (''/tracelink/order/update/object/module/'' @ module_name) id_field id_value \<and>
   update_style_delete (ObjectClient_delete c fetch module_name id_field id_value)
     (''/object/update/'' @ module_name) id_field id_value \<and>
   update_style_delete (ObjectClient_deleteRelation c fetch from_module to_module id_field id_value)
     (''/object/module/update/'' @ from_module @ ''/to/'' @ to_module) id_field id_value"
  by (simp add: update_style_delete_def OrderClient_delete_def SuborderClient_delete_def
      OrderClient_deleteModule_def ObjectClient_delete_def ObjectClient_deleteRelation_def
      request_sent_method request_sent_url sent_object_request object_literal_simps)

theorem deletes_are_updates_witness:
  "map req_method (fst (ObjectClient_delete example_client (answering example_ok_envelope None)
      ''purchase'' ''purchase_id'' (JNum 64))) = [''POST''] \<and>
   map req_url (fst (ObjectClient_delete example_client (answering example_ok_envelope None)
      ''purchase'' ''purchase_id'' (JNum 64)))
     = [''https://tracelink.app/rest/object/update/purchase''] \<and>
   (\<exists>ob. sent_object (ObjectClient_delete example_client (answering example_ok_envelope None)
      ''purchase'' ''purchase_id'' (JNum 64)) = Some ob \<and>
      fmlookup ob ''xdelete'' = Some (JStr ''1'') \<and>
      fmlookup ob ''purchase_id'' = Some (JNum 64))"
  using deletes_are_updates [of example_client "answering example_ok_envelope None" JUndefined
      JUndefined "''purchase''" "''purchase_id''" "JNum 64" "''a''" "''b''"]
  by (auto simp add: update_style_delete_def BASE_URL_def split: option.splits)



end
